theory Spec2Isabelle
  imports Main "HOL-Library.Sublist" "HOL-Library.AList" "HOL-Library.Multiset"
begin

section \<open>Strings\<close>

text \<open>
  JavaScript's \<^verbatim>\<open>s.includes(t)\<close> and \<^verbatim>\<open>s.endsWith(t)\<close> on the characters of
  a string: a contiguous occurrence of \<open>t\<close> in \<open>s\<close>, and \<open>t\<close> at the end of \<open>s\<close>.
\<close>

definition includes_str :: "string \<Rightarrow> string \<Rightarrow> bool" where
  "includes_str s t = sublist t s"

definition endsWith :: "string \<Rightarrow> string \<Rightarrow> bool" where
  "endsWith s t = suffix t s"

section \<open>The service worker (dist/sw.js)\<close>

subsection \<open>Requests, responses and the Cache Storage\<close>

text \<open>
  A response is its status and its body; \<open>ok\<close> is the Fetch API's
  \<^verbatim>\<open>response.ok\<close> (status 200 to 299). A request carries the fields the worker
  reads: its URL (the key under which the Cache API stores it), its method (\<open>http_method\<close>), the origin
  and pathname of \<^verbatim>\<open>new URL(request.url)\<close>, and its destination.
\<close>

record response =
  status :: nat
  body :: string

definition ok :: "response \<Rightarrow> bool" where
  "ok r = (200 \<le> status r \<and> status r \<le> 299)"

record request =
  url :: string
  http_method :: string
  origin :: string
  pathname :: string
  destination :: string

text \<open>
  A cache is an association list from request URLs to responses; the Cache Storage is
  the list of named caches in creation order. \<^verbatim>\<open>caches.match\<close> answers with the
  first cache, in that order, that holds the key; \<^verbatim>\<open>caches.open\<close> creates a missing
  cache; \<^verbatim>\<open>cache.put\<close> replaces the entry of a key; \<^verbatim>\<open>caches.delete\<close> removes a
  cache by name; \<^verbatim>\<open>caches.keys\<close> lists the names.
\<close>

type_synonym cache = "(string \<times> response) list"
type_synonym cache_storage = "(string \<times> cache) list"

fun caches_match :: "cache_storage \<Rightarrow> string \<Rightarrow> response option" where
  "caches_match [] k = None"
| "caches_match ((n, c) # cs) k =
     (case map_of c k of Some r \<Rightarrow> Some r | None \<Rightarrow> caches_match cs k)"

definition caches_open :: "cache_storage \<Rightarrow> string \<Rightarrow> cache_storage" where
  "caches_open cs name = (if name \<in> set (map fst cs) then cs else cs @ [(name, [])])"

fun cache_put :: "cache_storage \<Rightarrow> string \<Rightarrow> string \<Rightarrow> response \<Rightarrow> cache_storage" where
  "cache_put [] name k r = []"
| "cache_put ((n, c) # cs) name k r =
     (if n = name then (n, AList.update k r c) # cs else (n, c) # cache_put cs name k r)"

definition caches_delete :: "cache_storage \<Rightarrow> string \<Rightarrow> cache_storage" where
  "caches_delete cs name = filter (\<lambda>(n, c). n \<noteq> name) cs"

definition caches_keys :: "cache_storage \<Rightarrow> string list" where
  "caches_keys cs = map fst cs"

definition STATIC_CACHE :: string where
  "STATIC_CACHE = ''portfolio-static-v2''"

definition DYNAMIC_CACHE :: string where
  "DYNAMIC_CACHE = ''portfolio-dynamic-v2''"

subsection \<open>The network, promises and the worker's state\<close>

text \<open>
  The network is a parameter: for each request, \<^verbatim>\<open>fetch\<close> resolves with a response,
  rejects (the network is unavailable), or never settles. A promise of the worker is
  fulfilled with a value, rejected with the error, or pending for ever. The value of
  \<^verbatim>\<open>staleWhileRevalidate\<close> can be \<^verbatim>\<open>null\<close>, so values are a response or \<open>Null\<close>.

  The state is the Cache Storage and the log of the network fetches issued so far.
  The state a function returns is the one reached once the work it started has
  finished, including a \<^verbatim>\<open>cache.put\<close> that the code does not await.

  On a cache miss \<^verbatim>\<open>staleWhileRevalidate\<close> hands the fetched response to the page
  and clones it only after \<^verbatim>\<open>caches.open\<close> has settled; \<open>body_taken_first\<close> says
  whether the page has begun to read the body by then, in which case
  \<^verbatim>\<open>response.clone()\<close> throws inside the un-awaited callback: the dynamic cache
  has been opened, and so created if it was missing, but nothing is stored in it.
\<close>

datatype fetch_outcome = Resolves response | Rejects | Never

datatype error = NetworkError

datatype js_value = Resp response | Null

datatype 'a promise = Fulfilled 'a | Rejected error | Pending

record sw_env =
  network :: "request \<Rightarrow> fetch_outcome"
  location_origin :: string
  body_taken_first :: bool

record sw_state =
  caches :: cache_storage
  fetched :: "request list"

definition do_fetch :: "sw_state \<Rightarrow> request \<Rightarrow> sw_state" where
  "do_fetch st req = st\<lparr>fetched := fetched st @ [req]\<rparr>"

definition store :: "sw_state \<Rightarrow> string \<Rightarrow> request \<Rightarrow> response \<Rightarrow> sw_state" where
  "store st name req r =
     st\<lparr>caches := cache_put (caches_open (caches st) name) name (url req) r\<rparr>"

definition open_cache :: "sw_state \<Rightarrow> string \<Rightarrow> sw_state" where
  "open_cache st name = st\<lparr>caches := caches_open (caches st) name\<rparr>"

subsection \<open>The activate handler\<close>

definition activate :: "cache_storage \<Rightarrow> cache_storage" where
  "activate cs =
     fold (\<lambda>cacheName acc.
             if cacheName \<noteq> STATIC_CACHE \<and> cacheName \<noteq> DYNAMIC_CACHE
             then caches_delete acc cacheName else acc)
          (caches_keys cs) cs"

subsection \<open>The helper predicates on the pathname\<close>

definition isStaticAsset :: "string \<Rightarrow> bool" where
  "isStaticAsset p =
     (includes_str p ''/dist/css/'' \<or>
      includes_str p ''/dist/js/'' \<or>
      endsWith p ''.css'' \<or>
      endsWith p ''.js'' \<or>
      endsWith p ''.pdf'' \<or>
      includes_str p ''/assets/images/profile/'' \<or>
      includes_str p ''/assets/images/icons/'')"

definition isDynamicAsset :: "string \<Rightarrow> bool" where
  "isDynamicAsset p =
     (includes_str p ''/assets/images/projects/'' \<or>
      endsWith p ''.png'' \<or>
      endsWith p ''.jpg'' \<or>
      endsWith p ''.jpeg'' \<or>
      endsWith p ''.svg'' \<or>
      endsWith p ''.webp'')"

definition isDataRequest :: "string \<Rightarrow> bool" where
  "isDataRequest p =
     (includes_str p ''/assets/data/'' \<or>
      endsWith p ''.json'')"

subsection \<open>The three caching strategies\<close>

definition cacheFirst :: "sw_env \<Rightarrow> sw_state \<Rightarrow> request \<Rightarrow> js_value promise \<times> sw_state" where
  "cacheFirst env st req =
     (case caches_match (caches st) (url req) of
        Some cachedResponse \<Rightarrow> (Fulfilled (Resp cachedResponse), st)
      | None \<Rightarrow>
          (let st1 = do_fetch st req in
           case network env req of
             Resolves networkResponse \<Rightarrow>
               (Fulfilled (Resp networkResponse),
                if ok networkResponse then store st1 STATIC_CACHE req networkResponse else st1)
           | Rejects \<Rightarrow> (Rejected NetworkError, st1)
           | Never \<Rightarrow> (Pending, st1)))"

definition staleWhileRevalidate ::
  "sw_env \<Rightarrow> sw_state \<Rightarrow> request \<Rightarrow> js_value promise \<times> sw_state" where
  "staleWhileRevalidate env st req =
     (let cachedResponse = caches_match (caches st) (url req);
          st1 = do_fetch st req;
          cloned = (cachedResponse \<noteq> None \<or> \<not> body_taken_first env);
          (networkResponsePromise, st2) =
            (case network env req of
               Resolves response \<Rightarrow>
                 (Fulfilled (Resp response),
                  if ok response
                  then (if cloned then store st1 DYNAMIC_CACHE req response
                        else open_cache st1 DYNAMIC_CACHE)
                  else st1)
             | Rejects \<Rightarrow> (Fulfilled Null, st1)
             | Never \<Rightarrow> (Pending, st1))
      in case cachedResponse of
           Some c \<Rightarrow> (Fulfilled (Resp c), st2)
         | None \<Rightarrow> (networkResponsePromise, st2))"

definition networkFirst :: "sw_env \<Rightarrow> sw_state \<Rightarrow> request \<Rightarrow> js_value promise \<times> sw_state" where
  "networkFirst env st req =
     (let st1 = do_fetch st req in
      case network env req of
        Resolves networkResponse \<Rightarrow>
          (Fulfilled (Resp networkResponse),
           if ok networkResponse then store st1 DYNAMIC_CACHE req networkResponse else st1)
      | Rejects \<Rightarrow>
          (case caches_match (caches st1) (url req) of
             Some cachedResponse \<Rightarrow> (Fulfilled (Resp cachedResponse), st1)
           | None \<Rightarrow> (Rejected NetworkError, st1))
      | Never \<Rightarrow> (Pending, st1))"

subsection \<open>The offline fallback and the dispatcher\<close>

text \<open>
  \<^verbatim>\<open>caches.match('/index.html')\<close> resolves the path against the worker's own origin.
\<close>

definition handleOffline :: "sw_env \<Rightarrow> sw_state \<Rightarrow> request \<Rightarrow> js_value" where
  "handleOffline env st req =
     (case caches_match (caches st) (url req) of
        Some cachedResponse \<Rightarrow> Resp cachedResponse
      | None \<Rightarrow>
          if destination req = ''document'' then
            (case caches_match (caches st) (location_origin env @ ''/index.html'') of
               Some offlineHTML \<Rightarrow> Resp offlineHTML
             | None \<Rightarrow> Resp \<lparr>status = 503, body = ''Offline''\<rparr>)
          else if destination req = ''image'' then
            (case caches_match (caches st)
                    (location_origin env @ ''/assets/images/fallback-image.svg'') of
               Some fallbackImage \<Rightarrow> Resp fallbackImage
             | None \<Rightarrow> Resp \<lparr>status = 503, body = ''Image unavailable''\<rparr>)
          else Resp \<lparr>status = 503, body = ''Resource unavailable offline''\<rparr>)"

definition handleRequest :: "sw_env \<Rightarrow> sw_state \<Rightarrow> request \<Rightarrow> js_value promise \<times> sw_state" where
  "handleRequest env st req =
     (let (result, st') =
            (if isStaticAsset (pathname req) then cacheFirst env st req
             else if isDynamicAsset (pathname req) then staleWhileRevalidate env st req
             else if isDataRequest (pathname req) then networkFirst env st req
             else networkFirst env st req)
      in case result of
           Rejected e \<Rightarrow> (Fulfilled (handleOffline env st' req), st')
         | _ \<Rightarrow> (result, st'))"

subsection \<open>The fetch handler\<close>

datatype fetch_event = NotIntercepted | RespondWith "js_value promise"

definition fetch_listener :: "sw_env \<Rightarrow> sw_state \<Rightarrow> request \<Rightarrow> fetch_event \<times> sw_state" where
  "fetch_listener env st req =
     (if http_method req \<noteq> ''GET'' then (NotIntercepted, st)
      else if origin req \<noteq> location_origin env then (NotIntercepted, st)
      else (let (p, st') = handleRequest env st req in (RespondWith p, st')))"

subsection \<open>The policy a pathname selects, in the words of the specification\<close>

datatype policy = CacheFirst | StaleWhileRevalidate | NetworkFirst

definition selected_policy :: "string \<Rightarrow> policy" where
  "selected_policy p =
     (if isStaticAsset p then CacheFirst
      else if isDynamicAsset p then StaleWhileRevalidate
      else NetworkFirst)"

fun run_policy :: "policy \<Rightarrow> sw_env \<Rightarrow> sw_state \<Rightarrow> request \<Rightarrow> js_value promise \<times> sw_state" where
  "run_policy CacheFirst = cacheFirst"
| "run_policy StaleWhileRevalidate = staleWhileRevalidate"
| "run_policy NetworkFirst = networkFirst"

definition offline_on_error ::
  "sw_env \<Rightarrow> request \<Rightarrow> js_value promise \<times> sw_state \<Rightarrow> js_value promise \<times> sw_state" where
  "offline_on_error env req out =
     (case fst out of
        Rejected e \<Rightarrow> (Fulfilled (handleOffline env (snd out) req), snd out)
      | _ \<Rightarrow> out)"

text \<open>Where a cache of a given name holds a response for a key.\<close>

definition cached_in :: "cache_storage \<Rightarrow> string \<Rightarrow> string \<Rightarrow> response option" where
  "cached_in cs name k = (case map_of cs name of None \<Rightarrow> None | Some c \<Rightarrow> map_of c k)"

subsection \<open>Concrete requests, networks and states\<close>

definition site :: string where
  "site = ''https://site.example''"

definition get_request :: "string \<Rightarrow> string \<Rightarrow> request" where
  "get_request path dest =
     \<lparr>url = site @ path, http_method = ''GET'', origin = site, pathname = path, destination = dest\<rparr>"

definition offline_env :: sw_env where
  "offline_env = \<lparr>network = (\<lambda>_. Rejects), location_origin = site, body_taken_first = True\<rparr>"

definition stalled_env :: sw_env where
  "stalled_env = \<lparr>network = (\<lambda>_. Never), location_origin = site, body_taken_first = True\<rparr>"

definition fresh :: response where
  "fresh = \<lparr>status = 200, body = ''fresh''\<rparr>"

definition stale :: response where
  "stale = \<lparr>status = 200, body = ''stale''\<rparr>"

definition online_env :: sw_env where
  "online_env = \<lparr>network = (\<lambda>_. Resolves fresh), location_origin = site, body_taken_first = True\<rparr>"

definition empty_state :: sw_state where
  "empty_state = \<lparr>caches = [], fetched = []\<rparr>"

definition project_png :: request where
  "project_png = get_request ''/assets/images/projects/a.png'' ''image''"

definition icon_png :: request where
  "icon_png = get_request ''/assets/images/icons/a.png'' ''image''"

definition styles_css :: request where
  "styles_css = get_request ''/dist/css/styles.min.css'' ''style''"

definition data_json :: request where
  "data_json = get_request ''/assets/data/projects.json'' ''empty''"

definition index_html :: request where
  "index_html = get_request ''/index.html'' ''document''"

definition post_request :: request where
  "post_request = (get_request ''/api/contact'' ''empty'')\<lparr>http_method := ''POST''\<rparr>"

definition cdn_font :: request where
  "cdn_font = (get_request ''/font.woff2'' ''font'')\<lparr>origin := ''https://cdn.example''\<rparr>"

definition warm_state :: sw_state where
  "warm_state =
     \<lparr>caches = [(''portfolio-v1'', [(url project_png, stale), (url styles_css, stale)])],
      fetched = []\<rparr>"

section \<open>The content renderers\<close>

subsection \<open>Fetched JSON, errors and the grid element\<close>

text \<open>
  What \<^verbatim>\<open>fetch\<close> gives a renderer: a rejection (network error), or a response with
  its status and the value of \<^verbatim>\<open>response.json()\<close>, \<open>None\<close> when the body does not
  parse. A data file is the value of its list field (\<^verbatim>\<open>data.projects\<close>,
  \<^verbatim>\<open>data.publications\<close>), \<open>None\<close> when the field is missing.

  A grid element shows what was last written to its \<^verbatim>\<open>innerHTML\<close>: nothing yet, the
  loading indicator, a list of cards, an empty-state notice or an error notice. The
  holes of a card's template are the fields of a card record.
\<close>

record 'd json_response =
  json_status :: nat
  json_body :: "'d option"

definition response_ok :: "'d json_response \<Rightarrow> bool" where
  "response_ok r = (200 \<le> json_status r \<and> json_status r \<le> 299)"

datatype 'd fetch_result = NetworkFailure | Responds "'d json_response"

datatype js_error = TypeError string | SyntaxError string | Error string

datatype 'c grid =
  Untouched | LoadingState | Cards "'c list" | EmptyState string | ErrorState "string list"

text \<open>JavaScript truthiness of an optional string, and \<^verbatim>\<open>a || b\<close> on two of them.\<close>

definition truthy :: "string option \<Rightarrow> bool" where
  "truthy v = (case v of None \<Rightarrow> False | Some s \<Rightarrow> s \<noteq> [])"

definition js_or :: "string option \<Rightarrow> string option \<Rightarrow> string option" where
  "js_or a b = (if truthy a then a else b)"

definition toLowerCase :: "string \<Rightarrow> string" where
  "toLowerCase s =
     map (\<lambda>c. let n = (of_char c :: nat) in
               if 65 \<le> n \<and> n \<le> 90 then char_of (n + 32) else c) s"

subsection \<open>Projects\<close>

record project =
  project_id :: string
  title :: string
  description :: string
  technologies :: "string list option"
  images :: "string list option"
  category :: string
  repository :: "string option"
  demo :: "string option"

type_synonym projects_file = "project list option"

subsection \<open>ProjectsManager\<close>

text \<open>
  The page: what each data file's fetch gives, whether the elements that the manager
  looks up exist, and whether \<^verbatim>\<open>window.imageOptimizer\<close> is installed. The only
  assignment to \<^verbatim>\<open>window.imageOptimizer\<close> installs a \<^verbatim>\<open>TechnicalImageOptimizer\<close>,
  and neither that class nor \<^verbatim>\<open>ImageOptimizer\<close> defines \<^verbatim>\<open>addLazyImages\<close>: the call
  in \<^verbatim>\<open>renderProjects\<close> throws a TypeError when the optimizer is installed.
\<close>

record projects_page =
  fetch_projects :: "string \<Rightarrow> projects_file fetch_result"
  has_projects_grid :: bool
  has_container :: bool
  has_header :: bool
  imageOptimizer :: bool

datatype image_html = Img string string | Placeholder

record project_card =
  data_project_id :: string
  data_category :: string
  aria_label :: string
  card_image :: image_html
  card_badge :: string
  card_title :: string
  card_description :: string
  card_tech :: "string list"
  card_more :: "nat option"

record projects_manager =
  allProjects :: "project list"
  filteredProjects :: "project list"
  currentCategory :: string
  projectsGrid :: "project_card grid option"
  filter_bars :: nat

definition ProjectsManager_new :: "projects_page \<Rightarrow> projects_manager" where
  "ProjectsManager_new page =
     \<lparr>allProjects = [], filteredProjects = [], currentCategory = ''all'',
      projectsGrid = (if has_projects_grid page then Some Untouched else None),
      filter_bars = 0\<rparr>"

definition set_grid :: "project_card grid \<Rightarrow> projects_manager \<Rightarrow> projects_manager" where
  "set_grid g m = (case projectsGrid m of None \<Rightarrow> m | Some _ \<Rightarrow> m\<lparr>projectsGrid := Some g\<rparr>)"

definition showLoadingState :: "projects_manager \<Rightarrow> projects_manager" where
  "showLoadingState m = set_grid LoadingState m"

definition showError :: "string \<Rightarrow> projects_manager \<Rightarrow> projects_manager" where
  "showError message m = set_grid (ErrorState [''Unable to Load Projects'', message, ''Try Again'']) m"

text \<open>
  One of the three blocks of \<^verbatim>\<open>loadProjects\<close>: the parsed file when the fetch
  resolves with an ok response whose body parses, \<^verbatim>\<open>null\<close> otherwise.
\<close>

definition load_file :: "projects_file fetch_result \<Rightarrow> projects_file option" where
  "load_file f =
     (case f of
        NetworkFailure \<Rightarrow> None
      | Responds r \<Rightarrow> if response_ok r then json_body r else None)"

definition projects_of :: "projects_file option \<Rightarrow> project list" where
  "projects_of d = (case d of Some (Some ps) \<Rightarrow> ps | _ \<Rightarrow> [])"

definition loadProjects :: "projects_page \<Rightarrow> projects_manager \<Rightarrow> js_error option \<times> projects_manager" where
  "loadProjects page m =
     (let ai = load_file (fetch_projects page ''assets/data/ai-product-projects.json'');
          ml = load_file (fetch_projects page ''assets/data/ml-engineering-projects.json'');
          research = load_file (fetch_projects page ''assets/data/research-projects.json'');
          all = map (\<lambda>p. p\<lparr>category := ''ai-product''\<rparr>) (projects_of ai) @
                map (\<lambda>p. p\<lparr>category := ''ml-engineering''\<rparr>) (projects_of ml) @
                map (\<lambda>p. p\<lparr>category := ''research''\<rparr>) (projects_of research);
          m' = m\<lparr>allProjects := all, filteredProjects := all\<rparr>
      in if all = []
         then (Some (Error ''No projects could be loaded from any data file''), m')
         else (None, m'))"

definition createCategoryFilters :: "projects_page \<Rightarrow> projects_manager \<Rightarrow> projects_manager" where
  "createCategoryFilters page m =
     (if projectsGrid m = None then m
      else if \<not> has_container page then m
      else if \<not> has_header page then m
      else m\<lparr>filter_bars := Suc (filter_bars m)\<rparr>)"

definition getCategoryDisplayName :: "string \<Rightarrow> string" where
  "getCategoryDisplayName c =
     (if c = ''all'' then ''Projects''
      else if c = ''ai-product'' then ''AI Product Management Projects''
      else if c = ''ml-engineering'' then ''ML Engineering Projects''
      else if c = ''research'' then ''Research Projects''
      else ''Projects'')"

definition getCategoryBadge :: "string \<Rightarrow> string" where
  "getCategoryBadge c =
     (if c = ''ai-product'' then ''AI Product''
      else if c = ''ml-engineering'' then ''ML Engineering''
      else if c = ''research'' then ''Research''
      else [])"

definition createProjectCard :: "project \<Rightarrow> project_card" where
  "createProjectCard p =
     (let firstImage = (case images p of Some (x # _) \<Rightarrow> Some x | _ \<Rightarrow> None);
          techTags = (case technologies p of Some ts \<Rightarrow> take 3 ts | None \<Rightarrow> []);
          imageHTML = (case firstImage of
                         Some x \<Rightarrow> if x \<noteq> [] then Img x (title p) else Placeholder
                       | None \<Rightarrow> Placeholder)
      in \<lparr>data_project_id = project_id p,
          data_category = category p,
          aria_label = ''View details for '' @ title p @ '' in '' @
                       getCategoryDisplayName (category p),
          card_image = imageHTML,
          card_badge = getCategoryBadge (category p),
          card_title = title p,
          card_description = description p,
          card_tech = techTags,
          card_more = (case technologies p of
                         Some ts \<Rightarrow> if length ts > 3 then Some (length ts - 3) else None
                       | None \<Rightarrow> None)\<rparr>)"

definition renderProjects :: "projects_page \<Rightarrow> projects_manager \<Rightarrow> js_error option \<times> projects_manager" where
  "renderProjects page m =
     (if projectsGrid m = None then (None, m)
      else if filteredProjects m = [] then
        (None, set_grid (EmptyState (''No '' @
           toLowerCase (getCategoryDisplayName (currentCategory m)) @ '' available.'')) m)
      else
        (let m' = set_grid (Cards (map createProjectCard (filteredProjects m))) m
         in if imageOptimizer page
            then (Some (TypeError ''window.imageOptimizer.addLazyImages is not a function''), m')
            else (None, m')))"

definition filterProjects :: "projects_page \<Rightarrow> string \<Rightarrow> projects_manager \<Rightarrow> js_error option \<times> projects_manager" where
  "filterProjects page c m =
     renderProjects page
       (m\<lparr>currentCategory := c,
          filteredProjects :=
            (if c = ''all'' then allProjects m
             else filter (\<lambda>p. category p = c) (allProjects m))\<rparr>)"

definition fallback_projects :: "project list" where
  "fallback_projects =
     [\<lparr>project_id = ''autodescribe'', title = ''AutoDescribe'',
       description = ''RAG + human-in-the-loop product description generator that automates content creation while maintaining quality control.'',
       technologies = Some [''RAG'', ''Python'', ''OpenAI API'', ''Human-in-the-loop'', ''NLP''],
       images = Some [''assets/images/projects/autodescribe/dashboard.svg''],
       category = ''ai-product'', repository = None, demo = None\<rparr>,
      \<lparr>project_id = ''drosophila-neurotoxicity'', title = ''Neurotoxicity Analysis with Drosophila'',
       description = ''Understanding the neurotoxic effects of environmental compounds using Drosophila melanogaster as a model organism.'',
       technologies = Some [''Behavioral Analysis'', ''Electrophysiology'', ''Molecular Biology'',
                            ''Statistical Analysis''],
       images = Some [''assets/images/projects/drosophila/experimental-setup.svg''],
       category = ''research'', repository = None, demo = None\<rparr>]"

definition loadFallbackProjects :: "projects_manager \<Rightarrow> projects_manager" where
  "loadFallbackProjects m = m\<lparr>allProjects := fallback_projects, filteredProjects := fallback_projects\<rparr>"

text \<open>
  \<^verbatim>\<open>init\<close>: the \<^verbatim>\<open>try\<close> block, and the \<^verbatim>\<open>catch\<close> block with its own inner
  \<^verbatim>\<open>try\<close>. \<^verbatim>\<open>bindEvents\<close> and \<^verbatim>\<open>hideLoadingState\<close> only register listeners
  and cannot throw; they change nothing of the state kept here.
\<close>

definition init_catch :: "projects_page \<Rightarrow> projects_manager \<Rightarrow> js_error option \<times> projects_manager" where
  "init_catch page m =
     (let (e, m') = renderProjects page (createCategoryFilters page (loadFallbackProjects m))
      in case e of
           None \<Rightarrow> (None, m')
         | Some fallbackError \<Rightarrow>
             (None, showError ''Failed to load projects. Please try again later.'' m'))"

definition init :: "projects_page \<Rightarrow> projects_manager \<Rightarrow> js_error option \<times> projects_manager" where
  "init page m =
     (let (e, m1) = loadProjects page (showLoadingState m)
      in case e of
           Some error \<Rightarrow> init_catch page m1
         | None \<Rightarrow>
             (let (e', m2) = renderProjects page (createCategoryFilters page m1)
              in case e' of
                   Some error \<Rightarrow> init_catch page m2
                 | None \<Rightarrow> (None, m2)))"

subsection \<open>PublicationsManager (assets/js/publications.js)\<close>

text \<open>
  The browser's \<^verbatim>\<open>Date\<close> is a parameter of the page: \<open>parse_date\<close> is the time
  value of \<^verbatim>\<open>new Date(s)\<close> in milliseconds, \<open>None\<close> for an invalid date (whose
  time value is NaN), and \<open>format_date\<close> is \<^verbatim>\<open>formatDate\<close>.
\<close>

record publication =
  pub_id :: string
  pub_type :: string
  pub_title :: string
  pub_description :: string
  pub_abstract :: "string option"
  pub_url :: string
  pub_tags :: "string list"
  featured :: bool
  publishedDate :: string

type_synonym publications_file = "publication list option"

record publications_page =
  fetch_publications :: "publications_file fetch_result"
  has_publications_grid :: bool
  parse_date :: "string \<Rightarrow> int option"
  format_date :: "string \<Rightarrow> string"

record publication_card =
  data_publication_id :: string
  typeClass :: string
  typeLabel :: string
  featured_badge :: bool
  href :: string
  heading :: string
  summary :: string
  abstract_text :: "string option"
  date_text :: string
  tag_spans :: "string list"

record publications_manager =
  publications :: "publication list"
  publicationsGrid :: "publication_card grid option"

definition PublicationsManager_new :: publications_manager where
  "PublicationsManager_new = \<lparr>publications = [], publicationsGrid = None\<rparr>"

definition setupDOM :: "publications_page \<Rightarrow> publications_manager \<Rightarrow> publications_manager" where
  "setupDOM page m =
     m\<lparr>publicationsGrid := (if has_publications_grid page then Some Untouched else None)\<rparr>"

definition set_publications_grid ::
  "publication_card grid \<Rightarrow> publications_manager \<Rightarrow> publications_manager" where
  "set_publications_grid g m =
     (case publicationsGrid m of None \<Rightarrow> m | Some _ \<Rightarrow> m\<lparr>publicationsGrid := Some g\<rparr>)"

definition PublicationsManager_showLoadingState :: "publications_manager \<Rightarrow> publications_manager" where
  "PublicationsManager_showLoadingState m = set_publications_grid LoadingState m"

definition showEmptyState :: "publications_manager \<Rightarrow> publications_manager" where
  "showEmptyState m =
     set_publications_grid (EmptyState ''No publications available at the moment.'') m"

definition showErrorState :: "publications_manager \<Rightarrow> publications_manager" where
  "showErrorState m =
     set_publications_grid
       (ErrorState [''Sorry, there was an error loading the publications. Please try again later.'']) m"

definition loadPublications ::
  "publications_page \<Rightarrow> publications_manager \<Rightarrow> js_error option \<times> publications_manager" where
  "loadPublications page m =
     (case fetch_publications page of
        NetworkFailure \<Rightarrow> (Some (TypeError ''Failed to fetch''), m)
      | Responds r \<Rightarrow>
          if \<not> response_ok r then (Some (Error ''HTTP error!''), m)
          else (case json_body r of
                  None \<Rightarrow> (Some (SyntaxError ''Unexpected token in JSON''), m)
                | Some data \<Rightarrow>
                    (None, m\<lparr>publications := (case data of Some ps \<Rightarrow> ps | None \<Rightarrow> [])\<rparr>)))"

text \<open>
  The comparator of \<^verbatim>\<open>renderPublications\<close>. The difference of two dates is a
  number, or NaN when either date is invalid.
\<close>

datatype js_number = Num int | NaN

definition compare_publications :: "publications_page \<Rightarrow> publication \<Rightarrow> publication \<Rightarrow> js_number" where
  "compare_publications page a b =
     (if featured a \<and> \<not> featured b then Num (- 1)
      else if \<not> featured a \<and> featured b then Num 1
      else (case (parse_date page (publishedDate b), parse_date page (publishedDate a)) of
              (Some tb, Some ta) \<Rightarrow> Num (tb - ta)
            | _ \<Rightarrow> NaN))"

text \<open>
  \<^verbatim>\<open>Array.prototype.sort\<close> with a comparator: a stable sort, as ECMAScript requires
  when the comparator is consistent, written as insertion sort. An entry goes before
  another when the comparator's value is not positive; NaN counts as zero, as in
  ECMAScript's SortCompare. For a comparator that is not consistent (here: one that
  meets an invalid date) ECMAScript leaves the order to the implementation; the
  insertion sort is then one such order, and an engine may give another on longer
  lists. It is the order of the engines on a list that the comparator already finds in
  order from each entry to the next, such as the three-entry list used below.
\<close>

definition sorts_before :: "('a \<Rightarrow> 'a \<Rightarrow> js_number) \<Rightarrow> 'a \<Rightarrow> 'a \<Rightarrow> bool" where
  "sorts_before cmp x y = (case cmp x y of Num v \<Rightarrow> v \<le> 0 | NaN \<Rightarrow> True)"

fun sort_insert :: "('a \<Rightarrow> 'a \<Rightarrow> js_number) \<Rightarrow> 'a \<Rightarrow> 'a list \<Rightarrow> 'a list" where
  "sort_insert cmp x [] = [x]"
| "sort_insert cmp x (y # ys) =
     (if sorts_before cmp x y then x # y # ys else y # sort_insert cmp x ys)"

fun js_sort :: "('a \<Rightarrow> 'a \<Rightarrow> js_number) \<Rightarrow> 'a list \<Rightarrow> 'a list" where
  "js_sort cmp [] = []"
| "js_sort cmp (x # xs) = sort_insert cmp x (js_sort cmp xs)"

definition getTypeLabel :: "string \<Rightarrow> string" where
  "getTypeLabel t =
     (if t = ''research-paper'' then ''Research Paper''
      else if t = ''blog-post'' then ''Blog Post''
      else if t = ''linkedin-article'' then ''LinkedIn Article''
      else t)"

fun remove_first_dash :: "string \<Rightarrow> string" where
  "remove_first_dash [] = []"
| "remove_first_dash (c # cs) = (if c = CHR ''-'' then cs else c # remove_first_dash cs)"

definition createPublicationCard :: "publications_page \<Rightarrow> publication \<Rightarrow> publication_card" where
  "createPublicationCard page p =
     \<lparr>data_publication_id = pub_id p,
      typeClass = remove_first_dash (pub_type p),
      typeLabel = getTypeLabel (pub_type p),
      featured_badge = featured p,
      href = pub_url p,
      heading = pub_title p,
      summary = pub_description p,
      abstract_text = (if truthy (pub_abstract p) then pub_abstract p else None),
      date_text = format_date page (publishedDate p),
      tag_spans = pub_tags p\<rparr>"

definition renderPublications :: "publications_page \<Rightarrow> publications_manager \<Rightarrow> publications_manager" where
  "renderPublications page m =
     (if publicationsGrid m = None \<or> publications m = [] then showEmptyState m
      else
        (let sortedPublications = js_sort (compare_publications page) (publications m)
         in set_publications_grid (Cards (map (createPublicationCard page) sortedPublications))
              (m\<lparr>publications := sortedPublications\<rparr>)))"

definition PublicationsManager_init ::
  "publications_page \<Rightarrow> publications_manager \<Rightarrow> js_error option \<times> publications_manager" where
  "PublicationsManager_init page m =
     (let (e, m') = loadPublications page (PublicationsManager_showLoadingState (setupDOM page m))
      in case e of
           None \<Rightarrow> (None, renderPublications page m')
         | Some error \<Rightarrow> (None, showErrorState m'))"

text \<open>
  The order the claim names: featured entries before the others, and among entries of
  the same featured status the later date first.
\<close>

definition featured_then_newest :: "publications_page \<Rightarrow> publication \<Rightarrow> publication \<Rightarrow> bool" where
  "featured_then_newest page a b =
     ((featured a \<or> \<not> featured b) \<and>
      (featured a = featured b \<longrightarrow>
         the (parse_date page (publishedDate b)) \<le> the (parse_date page (publishedDate a))))"

subsection \<open>AIEngineeringProjects\<close>

record ai_page =
  fetch_ml_projects :: "projects_file fetch_result"
  has_ai_grid :: bool

record ai_card =
  ai_project_id :: string
  ai_image :: image_html
  ai_title :: string
  ai_description :: string
  ai_technologies :: "string list"
  ai_moreCount :: nat
  ai_repository :: "string option"
  ai_demo :: "string option"

record ai_engineering =
  projects :: "project list"
  container :: "ai_card grid option"

definition AIEngineeringProjects_new :: "ai_page \<Rightarrow> ai_engineering" where
  "AIEngineeringProjects_new page =
     \<lparr>projects = [], container = (if has_ai_grid page then Some Untouched else None)\<rparr>"

text \<open>
  \<^verbatim>\<open>loadProjects\<close> parses the body of whatever response arrives; it does not look
  at \<^verbatim>\<open>response.ok\<close>.
\<close>

definition AIEngineeringProjects_loadProjects :: "ai_page \<Rightarrow> ai_engineering \<Rightarrow> ai_engineering" where
  "AIEngineeringProjects_loadProjects page m =
     (case fetch_ml_projects page of
        NetworkFailure \<Rightarrow> m\<lparr>projects := []\<rparr>
      | Responds r \<Rightarrow>
          (case json_body r of
             None \<Rightarrow> m\<lparr>projects := []\<rparr>
           | Some data \<Rightarrow> m\<lparr>projects := (case data of Some ps \<Rightarrow> ps | None \<Rightarrow> [])\<rparr>))"

definition AIEngineeringProjects_createProjectCard :: "project \<Rightarrow> ai_card" where
  "AIEngineeringProjects_createProjectCard p =
     \<lparr>ai_project_id = project_id p,
      ai_image = (case images p of
                    Some (x # _) \<Rightarrow> if x \<noteq> [] then Img x (title p) else Placeholder
                  | _ \<Rightarrow> Placeholder),
      ai_title = title p,
      ai_description = description p,
      ai_technologies = (case technologies p of Some ts \<Rightarrow> take 3 ts | None \<Rightarrow> []),
      ai_moreCount = (case technologies p of
                        Some ts \<Rightarrow> if length ts > 3 then length ts - 3 else 0
                      | None \<Rightarrow> 0),
      ai_repository = (if truthy (repository p) then repository p else None),
      ai_demo = (if truthy (demo p) then demo p else None)\<rparr>"

definition AIEngineeringProjects_renderProjects :: "ai_engineering \<Rightarrow> ai_engineering" where
  "AIEngineeringProjects_renderProjects m =
     (case container m of
        None \<Rightarrow> m
      | Some _ \<Rightarrow>
          if projects m = []
          then m\<lparr>container := Some (EmptyState ''No projects available at the moment.'')\<rparr>
          else m\<lparr>container := Some (Cards (map AIEngineeringProjects_createProjectCard (projects m)))\<rparr>)"

definition AIEngineeringProjects_init :: "ai_page \<Rightarrow> ai_engineering \<Rightarrow> ai_engineering" where
  "AIEngineeringProjects_init page m =
     AIEngineeringProjects_renderProjects (AIEngineeringProjects_loadProjects page m)"

section \<open>The image optimizer (ImageOptimizer in assets/js/accessibility.js)\<close>

text \<open>
  An image element: its \<^verbatim>\<open>src\<close>, the \<^verbatim>\<open>data-src\<close> and \<^verbatim>\<open>data-lazy\<close> attributes,
  its class list, the class lists of its ancestors, and its \<^verbatim>\<open>alt\<close> and
  \<^verbatim>\<open>title\<close> attributes. \<^verbatim>\<open>img.closest('.c')\<close> finds the element itself or an
  ancestor of class \<open>c\<close>.
\<close>

record img =
  src :: string
  data_src :: "string option"
  data_lazy :: "string option"
  classList :: "string list"
  ancestors :: "string list list"
  alt :: "string option"
  title_attr :: "string option"

definition classList_add :: "string \<Rightarrow> string list \<Rightarrow> string list" where
  "classList_add c cs = (if c \<in> set cs then cs else cs @ [c])"

definition classList_remove :: "string \<Rightarrow> string list \<Rightarrow> string list" where
  "classList_remove c cs = removeAll c cs"

definition closest :: "img \<Rightarrow> string \<Rightarrow> bool" where
  "closest i c = (c \<in> set (classList i) \<or> (\<exists>a \<in> set (ancestors i). c \<in> set a))"

definition fallbackImage :: string where
  "fallbackImage = ''assets/images/fallback-image.svg''"

definition categoryFallbacks :: "string \<Rightarrow> string option" where
  "categoryFallbacks =
     map_of [(''technical-diagram'', ''assets/images/fallbacks/technical-diagram-fallback.svg''),
             (''research-plot'', ''assets/images/fallbacks/research-plot-fallback.svg''),
             (''project-screenshot'', ''assets/images/fallbacks/project-screenshot-fallback.svg''),
             (''default'', ''assets/images/fallbacks/default-fallback.svg'')]"

definition handleImageError :: "img \<Rightarrow> img" where
  "handleImageError i =
     (let fallbackSrc =
            (if ''technical-diagram'' \<in> set (classList i) \<or> closest i ''technical-diagram''
             then the (categoryFallbacks ''technical-diagram'')
             else if ''research-plot'' \<in> set (classList i) \<or> closest i ''research-plot''
             then the (categoryFallbacks ''research-plot'')
             else if ''project-screenshot'' \<in> set (classList i) \<or> closest i ''project-screenshot''
             then the (categoryFallbacks ''project-screenshot'')
             else if ''artifact-image'' \<in> set (classList i)
             then the (categoryFallbacks ''technical-diagram'')
             else fallbackImage)
      in i\<lparr>src := fallbackSrc,
           classList := classList_remove ''loading'' (classList_add ''fallback'' (classList i)),
           alt := Some (case js_or (alt i) (Some ''Image not available'') of
                          Some a \<Rightarrow> a | None \<Rightarrow> []),
           title_attr := Some ''Image could not be loaded''\<rparr>)"

text \<open>
  \<^verbatim>\<open>loadImage\<close> preloads the source through a detached \<^verbatim>\<open>Image\<close>; what becomes
  of that load is a parameter.
\<close>

datatype load_outcome = Loads | Fails | StillLoading

definition loadImage :: "(string \<Rightarrow> load_outcome) \<Rightarrow> img \<Rightarrow> img" where
  "loadImage outcome i =
     (let src' = js_or (data_src i) (data_lazy i)
      in if truthy src' then
           (let s = the src';
                i1 = i\<lparr>classList := classList_add ''loading'' (classList i)\<rparr>
            in case outcome s of
                 Loads \<Rightarrow>
                   i1\<lparr>src := s,
                      classList := classList_remove ''loading'' (classList_add ''loaded'' (classList i1)),
                      data_src := None, data_lazy := None\<rparr>
               | Fails \<Rightarrow> handleImageError i1
               | StillLoading \<Rightarrow> i1)
         else i)"

section \<open>Concrete pages and data\<close>

definition proj :: "string \<Rightarrow> project" where
  "proj i =
     \<lparr>project_id = i, title = i, description = [], technologies = None, images = None,
      category = [], repository = None, demo = None\<rparr>"

definition file_ok :: "'d \<Rightarrow> 'd option fetch_result" where
  "file_ok d = Responds \<lparr>json_status = 200, json_body = Some (Some d)\<rparr>"

definition not_found :: "'d option fetch_result" where
  "not_found = Responds \<lparr>json_status = 404, json_body = None\<rparr>"

definition projects_site ::
  "projects_file fetch_result \<Rightarrow> projects_file fetch_result \<Rightarrow> projects_file fetch_result \<Rightarrow>
   bool \<Rightarrow> projects_page" where
  "projects_site ai ml research optimizer =
     \<lparr>fetch_projects =
        (\<lambda>u. if u = ''assets/data/ai-product-projects.json'' then ai
             else if u = ''assets/data/ml-engineering-projects.json'' then ml
             else if u = ''assets/data/research-projects.json'' then research
             else NetworkFailure),
      has_projects_grid = True, has_container = True, has_header = True,
      imageOptimizer = optimizer\<rparr>"

definition three_files :: projects_page where
  "three_files =
     projects_site (file_ok [proj ''a1'', proj ''a2'']) (file_ok [proj ''m1'']) (file_ok [proj ''r1''])
       False"

definition empty_files :: projects_page where
  "empty_files = projects_site (file_ok []) (file_ok []) (file_ok []) False"

definition failed_response_with_projects :: ai_page where
  "failed_response_with_projects =
     \<lparr>fetch_ml_projects = Responds \<lparr>json_status = 500, json_body = Some (Some [proj ''m1''])\<rparr>,
      has_ai_grid = True\<rparr>"

definition calendar :: "string \<Rightarrow> int option" where
  "calendar =
     map_of [(''2020-01-01'', 1577836800000), (''2021-01-01'', 1609459200000),
             (''2022-01-01'', 1640995200000)]"

definition pub :: "string \<Rightarrow> bool \<Rightarrow> string \<Rightarrow> publication" where
  "pub i f d =
     \<lparr>pub_id = i, pub_type = ''blog-post'', pub_title = i, pub_description = [],
      pub_abstract = None, pub_url = [], pub_tags = [], featured = f, publishedDate = d\<rparr>"

definition publications_site :: publications_page where
  "publications_site =
     \<lparr>fetch_publications = NetworkFailure, has_publications_grid = True,
      parse_date = calendar, format_date = (\<lambda>s. s)\<rparr>"

definition showing :: "publication list \<Rightarrow> publications_manager" where
  "showing ps = \<lparr>publications = ps, publicationsGrid = Some LoadingState\<rparr>"

definition lazy_screenshot :: img where
  "lazy_screenshot =
     \<lparr>src = [], data_src = Some ''assets/images/projects/missing.png'', data_lazy = None,
      classList = [''lazy-image'', ''project-card-img'', ''project-screenshot''],
      ancestors = [[''project-card-image''], [''project-card'']],
      alt = Some ''AutoDescribe'', title_attr = None\<rparr>"

definition lazy_plain :: img where
  "lazy_plain =
     \<lparr>src = [], data_src = None, data_lazy = Some ''assets/images/missing.jpg'',
      classList = [], ancestors = [[''hero'']], alt = None, title_attr = None\<rparr>"

section \<open>Properties of the service worker\<close>

lemma activate_fold_filter:
  "fold (\<lambda>cacheName acc.
           if cacheName \<noteq> STATIC_CACHE \<and> cacheName \<noteq> DYNAMIC_CACHE
           then caches_delete acc cacheName else acc) ns cs
   = filter (\<lambda>(n, c). n \<in> set ns \<longrightarrow> n = STATIC_CACHE \<or> n = DYNAMIC_CACHE) cs"
proof (induction ns arbitrary: cs)
  case Nil
  then show ?case by simp
next
  case (Cons a ns)
  have "filter (\<lambda>(n, c). n \<in> set ns \<longrightarrow> n = STATIC_CACHE \<or> n = DYNAMIC_CACHE)
          (if a \<noteq> STATIC_CACHE \<and> a \<noteq> DYNAMIC_CACHE then caches_delete cs a else cs)
        = filter (\<lambda>(n, c). n \<in> set (a # ns) \<longrightarrow> n = STATIC_CACHE \<or> n = DYNAMIC_CACHE) cs"
    by (auto simp: caches_delete_def intro: filter_cong)
  with Cons.IH show ?case by simp
qed

text \<open>
  C9. After activation the Cache Storage holds exactly the caches named
  \<^verbatim>\<open>portfolio-static-v2\<close> or \<^verbatim>\<open>portfolio-dynamic-v2\<close> that it held before, with
  their contents and in their order: every cache of another name has been deleted and
  neither current cache is deleted.
\<close>

theorem activate_keeps_exactly_current_caches:
  "activate cs = filter (\<lambda>(n, c). n = STATIC_CACHE \<or> n = DYNAMIC_CACHE) cs"
proof -
  have "activate cs
        = filter (\<lambda>(n, c). n \<in> set (map fst cs) \<longrightarrow> n = STATIC_CACHE \<or> n = DYNAMIC_CACHE) cs"
    unfolding activate_def caches_keys_def by (rule activate_fold_filter)
  also have "\<dots> = filter (\<lambda>(n, c). n = STATIC_CACHE \<or> n = DYNAMIC_CACHE) cs"
    by (rule filter_cong) force+
  finally show ?thesis .
qed

theorem activate_keeps_exactly_current_caches_witness:
  "activate [(''portfolio-static-v1'', []), (''portfolio-static-v2'', [(''k'', stale)]),
             (''portfolio-v2'', []), (''portfolio-dynamic-v2'', [])]
   = [(''portfolio-static-v2'', [(''k'', stale)]), (''portfolio-dynamic-v2'', [])]"
  using activate_keeps_exactly_current_caches
    [of "[(''portfolio-static-v1'', []), (''portfolio-static-v2'', [(''k'', stale)]),
          (''portfolio-v2'', []), (''portfolio-dynamic-v2'', [])]"]
  by (simp add: STATIC_CACHE_def DYNAMIC_CACHE_def)

subsection \<open>Storing a response\<close>

lemma cached_in_put_existing:
  "name \<in> set (map fst cs) \<Longrightarrow> cached_in (cache_put cs name k r) name k = Some r"
proof (induction cs)
  case Nil
  then show ?case by simp
next
  case (Cons a cs)
  obtain n c where a: "a = (n, c)" by (cases a)
  show ?case
  proof (cases "n = name")
    case True
    then show ?thesis by (simp add: a cached_in_def update_conv')
  next
    case False
    with Cons.prems a have "name \<in> set (map fst cs)" by auto
    from Cons.IH[OF this] False show ?thesis by (simp add: a cached_in_def)
  qed
qed

lemma cached_in_store:
  "cached_in (caches (store st name req r)) name (url req) = Some r"
  unfolding store_def by (simp add: cached_in_put_existing caches_open_def)

lemma fetched_store: "fetched (store st name req r) = fetched st"
  by (simp add: store_def)

lemma fetched_open_cache: "fetched (open_cache st name) = fetched st"
  by (simp add: open_cache_def)

subsection \<open>The fetch handler\<close>

text \<open>
  C8. The fetch handler calls \<^verbatim>\<open>event.respondWith\<close>, with the promise of
  \<^verbatim>\<open>handleRequest\<close>, exactly when the request's method is GET and its origin is
  the worker's own; for every other request it returns without responding and without
  touching the caches or the network.
\<close>

theorem fetch_listener_intercepts_same_origin_GET_only:
  "fetch_listener env st req =
     (if http_method req = ''GET'' \<and> origin req = location_origin env
      then (RespondWith (fst (handleRequest env st req)), snd (handleRequest env st req))
      else (NotIntercepted, st))"
  by (simp add: fetch_listener_def split: prod.splits)

theorem fetch_listener_intercepts_same_origin_GET_only_witness:
  "fetch_listener offline_env warm_state post_request = (NotIntercepted, warm_state) \<and>
   fetch_listener offline_env warm_state cdn_font = (NotIntercepted, warm_state) \<and>
   fst (fetch_listener offline_env warm_state styles_css) = RespondWith (Fulfilled (Resp stale))"
  using fetch_listener_intercepts_same_origin_GET_only [of offline_env warm_state post_request]
    fetch_listener_intercepts_same_origin_GET_only [of offline_env warm_state cdn_font]
    fetch_listener_intercepts_same_origin_GET_only [of offline_env warm_state styles_css]
  by code_simp

subsection \<open>The dispatcher\<close>

lemma one_fetch_at_most:
  "length (fetched (snd (run_policy pol env st req))) \<le> Suc (length (fetched st))"
  by (cases pol)
    (auto simp: cacheFirst_def staleWhileRevalidate_def networkFirst_def do_fetch_def
      fetched_store fetched_open_cache Let_def split: option.splits fetch_outcome.splits)

text \<open>
  C1. \<^verbatim>\<open>handleRequest\<close> runs exactly one of the three strategies, the one its
  pathname selects: cache-first when the pathname matches the static-asset patterns,
  otherwise stale-while-revalidate when it matches the dynamic image patterns,
  otherwise network-first (for data and \<^verbatim>\<open>.json\<close> paths and for every other path).
  A rejection of the strategy is then answered by \<^verbatim>\<open>handleOffline\<close>. Nothing but
  the pathname enters the choice, and at most one network fetch is issued.
\<close>

theorem handleRequest_dispatches_by_pathname:
  "handleRequest env st req =
     offline_on_error env req (run_policy (selected_policy (pathname req)) env st req) \<and>
   selected_policy (pathname req) =
     (if isStaticAsset (pathname req) then CacheFirst
      else if isDynamicAsset (pathname req) then StaleWhileRevalidate
      else NetworkFirst) \<and>
   length (fetched (snd (handleRequest env st req))) \<le> Suc (length (fetched st))"
proof -
  have eq: "handleRequest env st req =
      offline_on_error env req (run_policy (selected_policy (pathname req)) env st req)"
    by (simp add: handleRequest_def offline_on_error_def selected_policy_def
        split: prod.splits promise.splits)
  have "snd (offline_on_error env req out) = snd out" for out
    by (simp add: offline_on_error_def split: promise.splits)
  with eq one_fetch_at_most [of "selected_policy (pathname req)" env st req]
  show ?thesis by (simp add: selected_policy_def)
qed

theorem handleRequest_dispatches_by_pathname_witness:
  "handleRequest online_env empty_state icon_png = cacheFirst online_env empty_state icon_png \<and>
   handleRequest online_env empty_state project_png
     = staleWhileRevalidate online_env empty_state project_png \<and>
   handleRequest online_env empty_state data_json = networkFirst online_env empty_state data_json \<and>
   handleRequest online_env empty_state index_html
     = networkFirst online_env empty_state index_html"
  using handleRequest_dispatches_by_pathname [of online_env empty_state icon_png]
    handleRequest_dispatches_by_pathname [of online_env empty_state project_png]
    handleRequest_dispatches_by_pathname [of online_env empty_state data_json]
    handleRequest_dispatches_by_pathname [of online_env empty_state index_html]
  by code_simp

subsection \<open>Cache first\<close>

text \<open>
  C4. Under the cache-first strategy a cached response is returned and the state is
  left as it was, so no network fetch is issued. Without a cached response the request
  is fetched once; when the fetch resolves, its response is returned, and it is stored
  under the request in the static cache if it is ok.
\<close>

theorem cacheFirst_hit_or_fetch_and_store:
  "(caches_match (caches st) (url req) = Some c \<longrightarrow>
      cacheFirst env st req = (Fulfilled (Resp c), st)) \<and>
   (caches_match (caches st) (url req) = None \<and> network env req = Resolves r \<longrightarrow>
      fst (cacheFirst env st req) = Fulfilled (Resp r) \<and>
      fetched (snd (cacheFirst env st req)) = fetched st @ [req] \<and>
      (ok r \<longrightarrow>
         cached_in (caches (snd (cacheFirst env st req))) STATIC_CACHE (url req) = Some r))"
  by (simp add: cacheFirst_def do_fetch_def fetched_store cached_in_store Let_def)

theorem cacheFirst_hit_or_fetch_and_store_witness:
  "cacheFirst online_env warm_state styles_css = (Fulfilled (Resp stale), warm_state) \<and>
   fetched (snd (cacheFirst online_env warm_state styles_css)) = [] \<and>
   fst (cacheFirst online_env empty_state styles_css) = Fulfilled (Resp fresh) \<and>
   fetched (snd (cacheFirst online_env empty_state styles_css)) = [styles_css] \<and>
   cached_in (caches (snd (cacheFirst online_env empty_state styles_css)))
     STATIC_CACHE (url styles_css) = Some fresh"
proof -
  have hit: "caches_match (caches warm_state) (url styles_css) = Some stale"
    by code_simp
  have miss: "caches_match (caches empty_state) (url styles_css) = None \<and>
      network online_env styles_css = Resolves fresh"
    by (simp add: empty_state_def online_env_def)
  have good: "ok fresh"
    by (simp add: ok_def fresh_def)
  from cacheFirst_hit_or_fetch_and_store [of warm_state styles_css stale online_env]
    cacheFirst_hit_or_fetch_and_store [of empty_state styles_css stale online_env fresh]
    hit miss good
  show ?thesis by (simp add: warm_state_def empty_state_def)
qed

subsection \<open>Stale while revalidate\<close>

text \<open>
  C2. When a cached response exists, \<^verbatim>\<open>staleWhileRevalidate\<close> is fulfilled with
  it whatever the network does, also when the fetch never settles: the fetch is not
  awaited. The fetch has been issued all the same, and when it resolves with an ok
  response, that response is stored under the request in the dynamic cache.
\<close>

theorem staleWhileRevalidate_serves_cache_and_refreshes:
  "caches_match (caches st) (url req) = Some c \<Longrightarrow>
     fst (staleWhileRevalidate env st req) = Fulfilled (Resp c) \<and>
     fetched (snd (staleWhileRevalidate env st req)) = fetched st @ [req] \<and>
     (network env req = Resolves r \<and> ok r \<longrightarrow>
        cached_in (caches (snd (staleWhileRevalidate env st req))) DYNAMIC_CACHE (url req)
          = Some r)"
  by (auto simp: staleWhileRevalidate_def do_fetch_def fetched_store cached_in_store Let_def
      split: fetch_outcome.splits)

theorem staleWhileRevalidate_serves_cache_and_refreshes_witness:
  "fst (staleWhileRevalidate stalled_env warm_state project_png) = Fulfilled (Resp stale) \<and>
   fst (staleWhileRevalidate online_env warm_state project_png) = Fulfilled (Resp stale) \<and>
   fetched (snd (staleWhileRevalidate online_env warm_state project_png)) = [project_png] \<and>
   cached_in (caches (snd (staleWhileRevalidate online_env warm_state project_png)))
     DYNAMIC_CACHE (url project_png) = Some fresh"
proof -
  have hit: "caches_match (caches warm_state) (url project_png) = Some stale"
    by code_simp
  have net: "network online_env project_png = Resolves fresh \<and> ok fresh"
    by (simp add: online_env_def ok_def fresh_def)
  from staleWhileRevalidate_serves_cache_and_refreshes [OF hit, of stalled_env fresh]
    staleWhileRevalidate_serves_cache_and_refreshes [OF hit, of online_env fresh] net
  show ?thesis by (simp add: warm_state_def)
qed

text \<open>
  On a miss, when the page has begun to read the body before the clone, the response
  is returned and the dynamic cache is created but left empty.
\<close>

lemma staleWhileRevalidate_miss_body_taken_first:
  "staleWhileRevalidate online_env empty_state project_png
     = (Fulfilled (Resp fresh),
        \<lparr>caches = [(''portfolio-dynamic-v2'', [])], fetched = [project_png]\<rparr>)"
  by code_simp

subsection \<open>When the network is unavailable\<close>

text \<open>
  What \<^verbatim>\<open>handleOffline\<close> answers is a response of the cache or a response of
  status 503.
\<close>

lemma handleOffline_cached_or_503:
  "\<exists>r. handleOffline env st req = Resp r \<and>
       ((\<exists>k. caches_match (caches st) k = Some r) \<or> status r = 503)"
  by (auto simp: handleOffline_def split: option.splits)

text \<open>
  For a request that selects cache-first or network-first, a failing network leaves
  \<^verbatim>\<open>handleRequest\<close> fulfilled with a response that was in the cache before, or with
  a response of status 503.
\<close>

lemma handleRequest_offline_cacheFirst_networkFirst:
  assumes "network env req = Rejects"
    and "selected_policy (pathname req) \<noteq> StaleWhileRevalidate"
  shows "\<exists>r. fst (handleRequest env st req) = Fulfilled (Resp r) \<and>
             ((\<exists>k. caches_match (caches st) k = Some r) \<or> status r = 503)"
proof -
  have same: "caches (do_fetch st req) = caches st"
    by (simp add: do_fetch_def)
  from handleOffline_cached_or_503 [of env "do_fetch st req" req] obtain r
    where r: "handleOffline env (do_fetch st req) req = Resp r"
      "(\<exists>k. caches_match (caches st) k = Some r) \<or> status r = 503"
    unfolding same by blast
  from assms r show ?thesis
    by (auto simp: handleRequest_def selected_policy_def cacheFirst_def networkFirst_def
        same Let_def split: if_splits option.splits)
qed

text \<open>
  For a request that selects stale-while-revalidate, a failing network leaves
  \<^verbatim>\<open>handleRequest\<close> fulfilled with the cached response if there is one, and with
  \<^verbatim>\<open>null\<close> otherwise: the rejection is swallowed inside the strategy, and
  \<^verbatim>\<open>handleOffline\<close> is never reached.
\<close>

lemma handleRequest_offline_staleWhileRevalidate:
  assumes "network env req = Rejects"
    and "selected_policy (pathname req) = StaleWhileRevalidate"
  shows "fst (handleRequest env st req) =
           (case caches_match (caches st) (url req) of
              Some c \<Rightarrow> Fulfilled (Resp c) | None \<Rightarrow> Fulfilled Null)"
  using assms
  by (auto simp: handleRequest_def selected_policy_def staleWhileRevalidate_def Let_def
      split: if_splits option.splits)

text \<open>
  C3. The claim fails on the code: for an image under
  \<^verbatim>\<open>/assets/images/projects/\<close> that is not cached, with the network unavailable,
  \<^verbatim>\<open>handleRequest\<close> is fulfilled with \<^verbatim>\<open>null\<close>, which is neither a cached
  response nor a response of status 503.
\<close>

theorem handleRequest_offline_uncached_image_is_null:
  "network offline_env project_png = Rejects \<and>
   caches_match (caches empty_state) (url project_png) = None \<and>
   http_method project_png = ''GET'' \<and> origin project_png = location_origin offline_env \<and>
   handleRequest offline_env empty_state project_png
     = (Fulfilled Null, \<lparr>caches = [], fetched = [project_png]\<rparr>)"
  by code_simp

section \<open>Properties of the project renderers\<close>

subsection \<open>ProjectsManager\<close>

lemma fresh_manager:
  "has_projects_grid page \<Longrightarrow>
   showLoadingState (ProjectsManager_new page) =
     \<lparr>allProjects = [], filteredProjects = [], currentCategory = ''all'',
      projectsGrid = Some LoadingState, filter_bars = 0\<rparr>"
  by (simp add: showLoadingState_def ProjectsManager_new_def set_grid_def)

lemma init_never_throws: "fst (init page m) = None"
  by (simp add: init_def init_catch_def split: prod.splits option.splits)

lemma init_catch_renders_fallback:
  assumes "projectsGrid m \<noteq> None" and "\<not> imageOptimizer page"
  shows "fst (init_catch page m) = None \<and>
         projectsGrid (snd (init_catch page m))
           = Some (Cards (map createProjectCard fallback_projects)) \<and>
         currentCategory (snd (init_catch page m)) = currentCategory m"
proof -
  have fb: "fallback_projects \<noteq> []"
    by (simp add: fallback_projects_def)
  define m1 where "m1 = createCategoryFilters page (loadFallbackProjects m)"
  have m1: "projectsGrid m1 \<noteq> None" "filteredProjects m1 = fallback_projects"
    "currentCategory m1 = currentCategory m"
    using assms(1) by (auto simp: m1_def createCategoryFilters_def loadFallbackProjects_def)
  have "renderProjects page m1
      = (None, m1\<lparr>projectsGrid := Some (Cards (map createProjectCard fallback_projects))\<rparr>)"
    using m1 fb assms(2) by (auto simp: renderProjects_def set_grid_def)
  then have "init_catch page m
      = (None, m1\<lparr>projectsGrid := Some (Cards (map createProjectCard fallback_projects))\<rparr>)"
    by (simp add: init_catch_def m1_def)
  with m1(3) show ?thesis by simp
qed

text \<open>
  C5, as amended. On a page with the projects grid, and without
  \<^verbatim>\<open>window.imageOptimizer\<close>, when the three data files are fetched with an ok status
  and parse to project lists, \<^verbatim>\<open>init\<close> does not throw and leaves the filter at
  \<^verbatim>\<open>all\<close>. When the lists hold at least one project in all, the grid shows exactly
  one card per loaded project: the AI product projects, then the ML engineering
  projects, then the research projects, each in the order of its file. When they hold
  no project at all, \<^verbatim>\<open>loadProjects\<close> throws and the grid shows the cards of the two
  hard-coded fallback projects instead.
\<close>

theorem init_renders_one_card_per_loaded_project:
  assumes grid: "has_projects_grid page"
    and no_optimizer: "\<not> imageOptimizer page"
    and ai: "fetch_projects page ''assets/data/ai-product-projects.json'' = Responds ra"
      "response_ok ra" "json_body ra = Some (Some ai)"
    and ml: "fetch_projects page ''assets/data/ml-engineering-projects.json'' = Responds rm"
      "response_ok rm" "json_body rm = Some (Some ml)"
    and research: "fetch_projects page ''assets/data/research-projects.json'' = Responds rr"
      "response_ok rr" "json_body rr = Some (Some research)"
  shows "(ai @ ml @ research \<noteq> [] \<longrightarrow>
            projectsGrid (snd (init page (ProjectsManager_new page))) =
              Some (Cards (map createProjectCard
                (map (\<lambda>p. p\<lparr>category := ''ai-product''\<rparr>) ai @
                 map (\<lambda>p. p\<lparr>category := ''ml-engineering''\<rparr>) ml @
                 map (\<lambda>p. p\<lparr>category := ''research''\<rparr>) research)))) \<and>
         (ai @ ml @ research = [] \<longrightarrow>
            fst (loadProjects page (showLoadingState (ProjectsManager_new page)))
              = Some (Error ''No projects could be loaded from any data file'') \<and>
            projectsGrid (snd (init page (ProjectsManager_new page))) =
              Some (Cards (map createProjectCard fallback_projects)) \<and>
            length (map createProjectCard fallback_projects) = 2) \<and>
         currentCategory (snd (init page (ProjectsManager_new page))) = ''all'' \<and>
         fst (init page (ProjectsManager_new page)) = None"
proof -
  define loaded where "loaded =
     map (\<lambda>p. p\<lparr>category := ''ai-product''\<rparr>) ai @
     map (\<lambda>p. p\<lparr>category := ''ml-engineering''\<rparr>) ml @
     map (\<lambda>p. p\<lparr>category := ''research''\<rparr>) research"
  define m0 where "m0 = showLoadingState (ProjectsManager_new page)"
  define m1 where "m1 = m0\<lparr>allProjects := loaded, filteredProjects := loaded\<rparr>"
  define m2 where "m2 = createCategoryFilters page m1"
  have files:
    "projects_of (load_file (fetch_projects page ''assets/data/ai-product-projects.json'')) = ai"
    "projects_of (load_file (fetch_projects page ''assets/data/ml-engineering-projects.json'')) = ml"
    "projects_of (load_file (fetch_projects page ''assets/data/research-projects.json'')) = research"
    using ai ml research by (simp_all add: load_file_def projects_of_def)
  have empty_iff: "loaded = [] \<longleftrightarrow> ai @ ml @ research = []"
    by (simp add: loaded_def)
  have load: "loadProjects page m0 =
      (if loaded = [] then Some (Error ''No projects could be loaded from any data file'')
       else None, m1)"
    unfolding loadProjects_def Let_def files
    by (simp add: loaded_def m1_def)
  have m1: "projectsGrid m1 = Some LoadingState" "currentCategory m1 = ''all''"
    using grid by (simp_all add: m1_def m0_def fresh_manager)
  have m2: "projectsGrid m2 = Some LoadingState" "filteredProjects m2 = loaded"
    "currentCategory m2 = ''all''"
    using grid by (simp_all add: m2_def m1_def m0_def fresh_manager createCategoryFilters_def)
  show ?thesis
  proof (cases "loaded = []")
    case True
    from m1(1) have "projectsGrid m1 \<noteq> None" by simp
    note fb = init_catch_renders_fallback [OF this no_optimizer]
    have run: "init page (ProjectsManager_new page) = init_catch page m1"
      unfolding init_def using load True by (simp add: m0_def)
    have thrown: "fst (loadProjects page (showLoadingState (ProjectsManager_new page)))
        = Some (Error ''No projects could be loaded from any data file'')"
      using load True by (simp add: m0_def)
    have shown: "projectsGrid (snd (init page (ProjectsManager_new page))) =
        Some (Cards (map createProjectCard fallback_projects))"
      using fb run by simp
    have two: "length (map createProjectCard fallback_projects) = 2"
      by (simp add: fallback_projects_def)
    have rest: "currentCategory (snd (init page (ProjectsManager_new page))) = ''all''"
      "fst (init page (ProjectsManager_new page)) = None"
      using fb run m1(2) by simp_all
    from True empty_iff have "ai @ ml @ research = []" by blast
    with thrown shown two rest show ?thesis by blast
  next
    case False
    have render: "renderProjects page m2
        = (None, m2\<lparr>projectsGrid := Some (Cards (map createProjectCard loaded))\<rparr>)"
      unfolding renderProjects_def set_grid_def Let_def m2
      using False no_optimizer by simp
    have run: "init page (ProjectsManager_new page)
        = (None, m2\<lparr>projectsGrid := Some (Cards (map createProjectCard loaded))\<rparr>)"
      unfolding init_def
      using load render False by (simp add: m0_def m2_def)
    have shown: "projectsGrid (snd (init page (ProjectsManager_new page))) =
        Some (Cards (map createProjectCard
          (map (\<lambda>p. p\<lparr>category := ''ai-product''\<rparr>) ai @
           map (\<lambda>p. p\<lparr>category := ''ml-engineering''\<rparr>) ml @
           map (\<lambda>p. p\<lparr>category := ''research''\<rparr>) research)))"
      unfolding run loaded_def by simp
    have rest: "currentCategory (snd (init page (ProjectsManager_new page))) = ''all''"
      "fst (init page (ProjectsManager_new page)) = None"
      using run m2(3) by simp_all
    from False empty_iff have "ai @ ml @ research \<noteq> []" by blast
    with shown rest show ?thesis by blast
  qed
qed

theorem init_renders_one_card_per_loaded_project_witness:
  "map data_project_id
     (case projectsGrid (snd (init three_files (ProjectsManager_new three_files))) of
        Some (Cards cs) \<Rightarrow> cs | _ \<Rightarrow> [])
     = [''a1'', ''a2'', ''m1'', ''r1''] \<and>
   map data_category
     (case projectsGrid (snd (init three_files (ProjectsManager_new three_files))) of
        Some (Cards cs) \<Rightarrow> cs | _ \<Rightarrow> [])
     = [''ai-product'', ''ai-product'', ''ml-engineering'', ''research''] \<and>
   map data_project_id
     (case projectsGrid (snd (init empty_files (ProjectsManager_new empty_files))) of
        Some (Cards cs) \<Rightarrow> cs | _ \<Rightarrow> [])
     = [''autodescribe'', ''drosophila-neurotoxicity'']"
proof -
  have page: "has_projects_grid three_files" "\<not> imageOptimizer three_files"
    by (simp_all add: three_files_def projects_site_def)
  have ai: "fetch_projects three_files ''assets/data/ai-product-projects.json''
      = Responds \<lparr>json_status = 200, json_body = Some (Some [proj ''a1'', proj ''a2''])\<rparr>"
    by (simp add: three_files_def projects_site_def file_ok_def)
  have ml: "fetch_projects three_files ''assets/data/ml-engineering-projects.json''
      = Responds \<lparr>json_status = 200, json_body = Some (Some [proj ''m1''])\<rparr>"
    by (simp add: three_files_def projects_site_def file_ok_def)
  have research: "fetch_projects three_files ''assets/data/research-projects.json''
      = Responds \<lparr>json_status = 200, json_body = Some (Some [proj ''r1''])\<rparr>"
    by (simp add: three_files_def projects_site_def file_ok_def)
  have page': "has_projects_grid empty_files" "\<not> imageOptimizer empty_files"
    by (simp_all add: empty_files_def projects_site_def)
  have none: "fetch_projects empty_files ''assets/data/ai-product-projects.json''
      = Responds \<lparr>json_status = 200, json_body = Some (Some [])\<rparr>"
    "fetch_projects empty_files ''assets/data/ml-engineering-projects.json''
      = Responds \<lparr>json_status = 200, json_body = Some (Some [])\<rparr>"
    "fetch_projects empty_files ''assets/data/research-projects.json''
      = Responds \<lparr>json_status = 200, json_body = Some (Some [])\<rparr>"
    by (simp_all add: empty_files_def projects_site_def file_ok_def)
  from init_renders_one_card_per_loaded_project [OF page ai _ _ ml _ _ research]
    init_renders_one_card_per_loaded_project [OF page' none(1) _ _ none(2) _ _ none(3)]
  show ?thesis
    by (simp add: response_ok_def createProjectCard_def proj_def fallback_projects_def)
qed

text \<open>
  The claim as written fails when the data files are fetched and parse but hold no
  project at all: \<^verbatim>\<open>loadProjects\<close> throws, and \<^verbatim>\<open>init\<close> renders the cards of the
  two hard-coded fallback projects, two cards for no loaded entry.
\<close>

theorem init_empty_files_counterexample:
  "projects_of (load_file (fetch_projects empty_files ''assets/data/ai-product-projects.json'')) = [] \<and>
   projects_of (load_file (fetch_projects empty_files ''assets/data/ml-engineering-projects.json'')) = [] \<and>
   projects_of (load_file (fetch_projects empty_files ''assets/data/research-projects.json'')) = [] \<and>
   load_file (fetch_projects empty_files ''assets/data/ai-product-projects.json'') = Some (Some []) \<and>
   projectsGrid (snd (init empty_files (ProjectsManager_new empty_files)))
     = Some (Cards (map createProjectCard fallback_projects)) \<and>
   length (map createProjectCard fallback_projects) = 2"
  by code_simp

text \<open>
  Choosing the filter \<^verbatim>\<open>all\<close> again renders the cards of all loaded projects.
\<close>

lemma filterProjects_all:
  assumes "projectsGrid m \<noteq> None" and "allProjects m \<noteq> []" and "\<not> imageOptimizer page"
  shows "projectsGrid (snd (filterProjects page ''all'' m))
           = Some (Cards (map createProjectCard (allProjects m)))"
  using assms by (auto simp: filterProjects_def renderProjects_def set_grid_def)

text \<open>
  With \<^verbatim>\<open>window.imageOptimizer\<close> installed, \<^verbatim>\<open>renderProjects\<close> throws after it has
  written the cards, the fallback projects are rendered and throw in the same way, and
  the grid ends with the error notice.
\<close>

lemma init_with_imageOptimizer:
  "projectsGrid (snd (init (three_files\<lparr>imageOptimizer := True\<rparr>)
       (ProjectsManager_new (three_files\<lparr>imageOptimizer := True\<rparr>))))
     = Some (ErrorState [''Unable to Load Projects'',
         ''Failed to load projects. Please try again later.'', ''Try Again''])"
  by code_simp

subsection \<open>When fetching the data fails\<close>

text \<open>
  ProjectsManager: when none of the three files can be loaded, the grid shows the cards
  of the fallback projects, or the error notice when rendering them throws.
\<close>

lemma init_all_fetches_fail:
  assumes grid: "has_projects_grid page"
    and fail: "\<And>u. load_file (fetch_projects page u) = None"
  shows "projectsGrid (snd (init page (ProjectsManager_new page))) =
           Some (if imageOptimizer page
                 then ErrorState [''Unable to Load Projects'',
                        ''Failed to load projects. Please try again later.'', ''Try Again'']
                 else Cards (map createProjectCard fallback_projects))"
proof -
  let ?m0 = "showLoadingState (ProjectsManager_new page)"
  have load: "loadProjects page ?m0
      = (Some (Error ''No projects could be loaded from any data file''),
         ?m0\<lparr>allProjects := [], filteredProjects := []\<rparr>)"
    by (simp add: loadProjects_def fail projects_of_def)
  have fb: "fallback_projects \<noteq> []"
    by (simp add: fallback_projects_def)
  have "projectsGrid (snd (init_catch page (?m0\<lparr>allProjects := [], filteredProjects := []\<rparr>))) =
           Some (if imageOptimizer page
                 then ErrorState [''Unable to Load Projects'',
                        ''Failed to load projects. Please try again later.'', ''Try Again'']
                 else Cards (map createProjectCard fallback_projects))"
    using grid fb
    by (simp add: init_catch_def renderProjects_def createCategoryFilters_def
        loadFallbackProjects_def fresh_manager set_grid_def showError_def)
  then show ?thesis
    unfolding init_def load by simp
qed

lemma init_files_missing:
  "init (projects_site not_found not_found NetworkFailure False)
        (ProjectsManager_new (projects_site not_found not_found NetworkFailure False))
     = (None,
        \<lparr>allProjects = fallback_projects, filteredProjects = fallback_projects,
         currentCategory = ''all'',
         projectsGrid = Some (Cards (map createProjectCard fallback_projects)),
         filter_bars = 1\<rparr>)"
  by code_simp

text \<open>
  PublicationsManager: a network error, a status that is not ok or a body that does not
  parse all end with the error notice in the grid, and \<^verbatim>\<open>init\<close> does not throw.
\<close>

lemma PublicationsManager_init_fetch_fails:
  assumes "has_publications_grid page"
    and "fetch_publications page = NetworkFailure \<or>
         (\<exists>r. fetch_publications page = Responds r \<and> (\<not> response_ok r \<or> json_body r = None))"
  shows "PublicationsManager_init page PublicationsManager_new =
           (None, \<lparr>publications = [], publicationsGrid = Some (ErrorState
              [''Sorry, there was an error loading the publications. Please try again later.''])\<rparr>)"
  using assms
  by (auto simp: PublicationsManager_init_def loadPublications_def setupDOM_def
      PublicationsManager_showLoadingState_def set_publications_grid_def showErrorState_def
      PublicationsManager_new_def)

text \<open>
  AIEngineeringProjects: a network error or a body that does not parse ends with the
  notice that no projects are available.
\<close>

lemma AIEngineeringProjects_init_fetch_fails:
  assumes "has_ai_grid page"
    and "fetch_ml_projects page = NetworkFailure \<or>
         (\<exists>r. fetch_ml_projects page = Responds r \<and> json_body r = None)"
  shows "container (AIEngineeringProjects_init page (AIEngineeringProjects_new page)) =
           Some (EmptyState ''No projects available at the moment.'')"
  using assms
  by (auto simp: AIEngineeringProjects_init_def AIEngineeringProjects_loadProjects_def
      AIEngineeringProjects_renderProjects_def AIEngineeringProjects_new_def)

text \<open>
  C6. The claim fails on the code for a status that is not ok:
  \<^verbatim>\<open>AIEngineeringProjects.loadProjects\<close> never looks at \<^verbatim>\<open>response.ok\<close>, so a
  response of status 500 whose body parses to a project list is rendered as if the
  fetch had succeeded, with neither placeholder content nor an error notice.
\<close>

theorem AIEngineeringProjects_renders_failed_response:
  "fetch_ml_projects failed_response_with_projects
     = Responds \<lparr>json_status = 500, json_body = Some (Some [proj ''m1''])\<rparr> \<and>
   \<not> response_ok \<lparr>json_status = 500, json_body = Some (Some [proj ''m1''])\<rparr> \<and>
   container (AIEngineeringProjects_init failed_response_with_projects
       (AIEngineeringProjects_new failed_response_with_projects))
     = Some (Cards [AIEngineeringProjects_createProjectCard (proj ''m1'')])"
  by (simp add: failed_response_with_projects_def response_ok_def
      AIEngineeringProjects_init_def AIEngineeringProjects_loadProjects_def
      AIEngineeringProjects_renderProjects_def AIEngineeringProjects_new_def)

section \<open>Properties of the publications renderer\<close>

subsection \<open>The sort\<close>

lemma set_sort_insert: "set (sort_insert cmp x xs) = insert x (set xs)"
  by (induction xs) auto

lemma mset_sort_insert: "mset (sort_insert cmp x xs) = add_mset x (mset xs)"
  by (induction xs) auto

lemma mset_js_sort: "mset (js_sort cmp xs) = mset xs"
  by (induction xs) (auto simp: mset_sort_insert)

lemma set_js_sort: "set (js_sort cmp xs) = set xs"
  by (metis mset_js_sort set_mset_mset)

lemma sorted_sort_insert:
  assumes agree: "\<And>a b. a \<in> insert x (set xs) \<Longrightarrow> b \<in> insert x (set xs) \<Longrightarrow> sorts_before cmp a b = R a b"
    and trans: "\<And>a b c. R a b \<Longrightarrow> R b c \<Longrightarrow> R a c"
    and total: "\<And>a b. R a b \<or> R b a"
    and sorted: "sorted_wrt R xs"
  shows "sorted_wrt R (sort_insert cmp x xs)"
  using agree sorted
proof (induction xs)
  case Nil
  then show ?case by simp
next
  case (Cons y ys)
  show ?case
  proof (cases "sorts_before cmp x y")
    case True
    with Cons.prems(1) have xy: "R x y" by simp
    have "R x z" if "z \<in> set ys" for z
      using xy Cons.prems(2) that trans by auto
    with xy Cons.prems(2) True show ?thesis by auto
  next
    case False
    with Cons.prems(1) have "\<not> R x y" by simp
    with total have yx: "R y x" by blast
    have "sorted_wrt R (sort_insert cmp x ys)"
      using Cons.IH Cons.prems by auto
    with yx Cons.prems(2) False show ?thesis
      by (auto simp: set_sort_insert)
  qed
qed

lemma sorted_js_sort:
  assumes agree: "\<And>a b. a \<in> set xs \<Longrightarrow> b \<in> set xs \<Longrightarrow> sorts_before cmp a b = R a b"
    and trans: "\<And>a b c. R a b \<Longrightarrow> R b c \<Longrightarrow> R a c"
    and total: "\<And>a b. R a b \<or> R b a"
  shows "sorted_wrt R (js_sort cmp xs)"
  using agree
proof (induction xs)
  case Nil
  then show ?case by simp
next
  case (Cons x xs)
  have "sorted_wrt R (js_sort cmp xs)"
    using Cons by auto
  moreover have "sorts_before cmp a b = R a b"
    if "a \<in> insert x (set (js_sort cmp xs))" "b \<in> insert x (set (js_sort cmp xs))" for a b
    using that Cons.prems by (auto simp: set_js_sort)
  ultimately show ?case
    using sorted_sort_insert [of x "js_sort cmp xs" cmp R] trans total by auto
qed

lemma compare_publications_valid:
  assumes "parse_date page (publishedDate a) \<noteq> None" "parse_date page (publishedDate b) \<noteq> None"
  shows "sorts_before (compare_publications page) a b = featured_then_newest page a b"
  using assms
  by (auto simp: sorts_before_def compare_publications_def featured_then_newest_def)

lemma featured_then_newest_trans:
  "featured_then_newest page a b \<Longrightarrow> featured_then_newest page b c \<Longrightarrow> featured_then_newest page a c"
  by (auto simp: featured_then_newest_def)

lemma featured_then_newest_total:
  "featured_then_newest page a b \<or> featured_then_newest page b a"
  by (auto simp: featured_then_newest_def)

text \<open>
  C10, as amended. With the grid element present, a non-empty publications list and every
  \<^verbatim>\<open>publishedDate\<close> a valid date, \<^verbatim>\<open>renderPublications\<close> writes one card per
  publication: the cards of a rearrangement of the list in which every featured entry
  comes before every other entry and, among entries of the same featured status, later
  dates come first.
\<close>

theorem renderPublications_featured_then_newest:
  assumes "publicationsGrid m \<noteq> None" and "publications m \<noteq> []"
    and "\<forall>p \<in> set (publications m). parse_date page (publishedDate p) \<noteq> None"
  shows "publicationsGrid (renderPublications page m) =
           Some (Cards (map (createPublicationCard page) (publications (renderPublications page m)))) \<and>
         mset (publications (renderPublications page m)) = mset (publications m) \<and>
         sorted_wrt (featured_then_newest page) (publications (renderPublications page m))"
proof -
  let ?s = "js_sort (compare_publications page) (publications m)"
  have pubs: "publications (renderPublications page m) = ?s"
    using assms(1,2)
    by (auto simp: renderPublications_def set_publications_grid_def Let_def)
  have grid: "publicationsGrid (renderPublications page m) =
      Some (Cards (map (createPublicationCard page) ?s))"
    using assms(1,2)
    by (auto simp: renderPublications_def set_publications_grid_def Let_def)
  have "sorted_wrt (featured_then_newest page) ?s"
  proof (rule sorted_js_sort)
    fix a b assume "a \<in> set (publications m)" "b \<in> set (publications m)"
    with assms(3) show "sorts_before (compare_publications page) a b = featured_then_newest page a b"
      by (intro compare_publications_valid) auto
  next
    fix a b c assume "featured_then_newest page a b" "featured_then_newest page b c"
    then show "featured_then_newest page a c" by (rule featured_then_newest_trans)
  next
    fix a b show "featured_then_newest page a b \<or> featured_then_newest page b a"
      by (rule featured_then_newest_total)
  qed
  with pubs grid show ?thesis by (simp add: mset_js_sort)
qed

theorem renderPublications_featured_then_newest_witness:
  "publicationsGrid (renderPublications publications_site
       (showing [pub ''a'' False ''2020-01-01'', pub ''b'' True ''2021-01-01'',
                 pub ''c'' False ''2022-01-01'', pub ''d'' True ''2022-01-01'']))
     = Some (Cards (map (createPublicationCard publications_site)
         [pub ''d'' True ''2022-01-01'', pub ''b'' True ''2021-01-01'',
          pub ''c'' False ''2022-01-01'', pub ''a'' False ''2020-01-01''])) \<and>
   sorted_wrt (featured_then_newest publications_site)
     [pub ''d'' True ''2022-01-01'', pub ''b'' True ''2021-01-01'',
      pub ''c'' False ''2022-01-01'', pub ''a'' False ''2020-01-01'']"
proof -
  let ?m = "showing [pub ''a'' False ''2020-01-01'', pub ''b'' True ''2021-01-01'',
                     pub ''c'' False ''2022-01-01'', pub ''d'' True ''2022-01-01'']"
  have grid: "publicationsGrid ?m \<noteq> None" and some: "publications ?m \<noteq> []"
    by (simp_all add: showing_def)
  have dates: "\<forall>p \<in> set (publications ?m). parse_date publications_site (publishedDate p) \<noteq> None"
    by (simp add: showing_def pub_def publications_site_def calendar_def)
  have order: "publications (renderPublications publications_site ?m)
      = [pub ''d'' True ''2022-01-01'', pub ''b'' True ''2021-01-01'',
         pub ''c'' False ''2022-01-01'', pub ''a'' False ''2020-01-01'']"
    by code_simp
  from renderPublications_featured_then_newest [OF grid some dates] order
  show ?thesis by simp
qed

text \<open>
  Without the condition on the dates the order can fail: an entry whose date does not
  parse compares as equal to both of its neighbours, and an older entry stays before a
  newer one.
\<close>

theorem renderPublications_invalid_date_counterexample:
  "map pub_id (publications (renderPublications publications_site
       (showing [pub ''a'' False ''2020-01-01'', pub ''b'' False ''soon'',
                 pub ''c'' False ''2021-01-01''])))
     = [''a'', ''b'', ''c''] \<and>
   featured (pub ''a'' False ''2020-01-01'') = featured (pub ''c'' False ''2021-01-01'') \<and>
   parse_date publications_site (publishedDate (pub ''a'' False ''2020-01-01'')) = Some 1577836800000 \<and>
   parse_date publications_site (publishedDate (pub ''c'' False ''2021-01-01'')) = Some 1609459200000 \<and>
   \<not> featured_then_newest publications_site
       (pub ''a'' False ''2020-01-01'') (pub ''c'' False ''2021-01-01'')"
  by code_simp

section \<open>Properties of the image optimizer\<close>

lemma mem_classList_add:
  "c \<noteq> d \<Longrightarrow> c \<in> set (classList_add d cs) \<longleftrightarrow> c \<in> set cs"
  by (auto simp: classList_add_def)

lemma closest_loading:
  "c \<noteq> ''loading'' \<Longrightarrow>
   closest (i\<lparr>classList := classList_add ''loading'' (classList i)\<rparr>) c = closest i c"
  by (auto simp: closest_def classList_add_def)

text \<open>
  C7. When a lazily loaded image's source (its \<^verbatim>\<open>data-src\<close>, or else its
  \<^verbatim>\<open>data-lazy\<close>) fails to load, \<^verbatim>\<open>loadImage\<close> leaves the element with a fallback
  SVG as its \<^verbatim>\<open>src\<close>: the technical-diagram, research-plot or project-screenshot
  fallback when the image or an ancestor has that class (in this order), the
  technical-diagram fallback for an \<^verbatim>\<open>artifact-image\<close>, and the generic
  \<^verbatim>\<open>fallback-image.svg\<close> otherwise. The class \<^verbatim>\<open>loading\<close> is removed and the
  class \<^verbatim>\<open>fallback\<close> is set.
\<close>

theorem loadImage_failure_swaps_to_fallback:
  assumes "js_or (data_src i) (data_lazy i) = Some s" and "s \<noteq> []" and "outcome s = Fails"
  shows "src (loadImage outcome i) =
           (if closest i ''technical-diagram''
              then ''assets/images/fallbacks/technical-diagram-fallback.svg''
            else if closest i ''research-plot''
              then ''assets/images/fallbacks/research-plot-fallback.svg''
            else if closest i ''project-screenshot''
              then ''assets/images/fallbacks/project-screenshot-fallback.svg''
            else if ''artifact-image'' \<in> set (classList i)
              then ''assets/images/fallbacks/technical-diagram-fallback.svg''
            else ''assets/images/fallback-image.svg'') \<and>
         ''loading'' \<notin> set (classList (loadImage outcome i)) \<and>
         ''fallback'' \<in> set (classList (loadImage outcome i))"
proof -
  let ?i1 = "i\<lparr>classList := classList_add ''loading'' (classList i)\<rparr>"
  from assms have run: "loadImage outcome i = handleImageError ?i1"
    by (simp add: loadImage_def truthy_def Let_def)
  have own: "c \<in> set (classList i) \<Longrightarrow> closest i c" for c
    by (simp add: closest_def)
  have "src (handleImageError ?i1) =
           (if closest i ''technical-diagram''
              then ''assets/images/fallbacks/technical-diagram-fallback.svg''
            else if closest i ''research-plot''
              then ''assets/images/fallbacks/research-plot-fallback.svg''
            else if closest i ''project-screenshot''
              then ''assets/images/fallbacks/project-screenshot-fallback.svg''
            else if ''artifact-image'' \<in> set (classList i)
              then ''assets/images/fallbacks/technical-diagram-fallback.svg''
            else ''assets/images/fallback-image.svg'')"
    unfolding handleImageError_def Let_def
    using own by (auto simp: closest_loading mem_classList_add categoryFallbacks_def fallbackImage_def)
  moreover have "''loading'' \<notin> set (classList (handleImageError ?i1))"
    by (simp add: handleImageError_def classList_remove_def Let_def)
  moreover have "''fallback'' \<in> set (classList (handleImageError ?i1))"
    by (simp add: handleImageError_def classList_remove_def classList_add_def Let_def)
  ultimately show ?thesis using run by simp
qed

theorem loadImage_failure_swaps_to_fallback_witness:
  "src (loadImage (\<lambda>_. Fails) lazy_screenshot)
     = ''assets/images/fallbacks/project-screenshot-fallback.svg'' \<and>
   classList (loadImage (\<lambda>_. Fails) lazy_screenshot)
     = [''lazy-image'', ''project-card-img'', ''project-screenshot'', ''fallback''] \<and>
   src (loadImage (\<lambda>_. Fails) lazy_plain) = ''assets/images/fallback-image.svg'' \<and>
   classList (loadImage (\<lambda>_. Fails) lazy_plain) = [''fallback'']"
proof -
  have a: "js_or (data_src lazy_screenshot) (data_lazy lazy_screenshot)
      = Some ''assets/images/projects/missing.png''"
    by (simp add: js_or_def truthy_def lazy_screenshot_def)
  have b: "js_or (data_src lazy_plain) (data_lazy lazy_plain) = Some ''assets/images/missing.jpg''"
    by (simp add: js_or_def truthy_def lazy_plain_def)
  have c: "classList (loadImage (\<lambda>_. Fails) lazy_screenshot)
      = [''lazy-image'', ''project-card-img'', ''project-screenshot'', ''fallback'']"
    by code_simp
  have d: "classList (loadImage (\<lambda>_. Fails) lazy_plain) = [''fallback'']"
    by code_simp
  have e: "closest lazy_screenshot ''project-screenshot'' \<and>
      \<not> closest lazy_screenshot ''technical-diagram'' \<and> \<not> closest lazy_screenshot ''research-plot''"
    by (simp add: closest_def lazy_screenshot_def)
  have f: "\<not> closest lazy_plain ''project-screenshot'' \<and>
      \<not> closest lazy_plain ''technical-diagram'' \<and> \<not> closest lazy_plain ''research-plot'' \<and>
      ''artifact-image'' \<notin> set (classList lazy_plain)"
    by (simp add: closest_def lazy_plain_def)
  from loadImage_failure_swaps_to_fallback [OF a, of "\<lambda>_. Fails"]
    loadImage_failure_swaps_to_fallback [OF b, of "\<lambda>_. Fails"] c d e f
  show ?thesis by simp
qed

end
